theory Spec2Isabelle
  imports Main "HOL-Library.Char_ord" "HOL-Library.List_Lexorder"
begin

section \<open>Errors\<close>

text \<open>
  Everything the TypeScript throws is a value of \<open>js_error\<close>: \<open>Error msg\<close> is
  \<^verbatim>\<open>new Error(msg)\<close>, \<open>TypeError\<close> is the runtime's error for a method call on
  \<^verbatim>\<open>undefined\<close>, and the remaining constructors are the conditions the specification
  names for the identity deriver and for the communications platform.
\<close>

datatype js_error =
    Error string
  | TypeError
  | InvalidIdentifier
  | AuthenticationFailed
  | NetworkUnavailable
  | SessionCreateFailed

section \<open>Identity deriver\<close>

text \<open>
  The platform's identifier constraints: the characters an identifier may contain and the
  longest identifier the platform accepts.
\<close>

record id_constraints =
  allowed_char :: "char \<Rightarrow> bool"
  max_length :: nat

text \<open>
  Modelled from the spec: \<^verbatim>\<open>createVideoCallId\<close> is imported from \<^verbatim>\<open>../lib/stream\<close>,
  which is not among the sources; only its call in \<^verbatim>\<open>initializeVideoCall\<close> is. The
  definition follows section 4.1 of the specification: both identifiers must be non-empty
  and inside the platform's character set, the result is the smaller identifier (in
  lexicographic byte order), a colon, and the larger one, and a result longer than the
  platform allows is rejected rather than truncated.
\<close>

definition createVideoCallId :: "id_constraints \<Rightarrow> string \<Rightarrow> string \<Rightarrow> js_error + string" where
  "createVideoCallId pc idA idB =
     (if idA = [] \<or> idB = [] then Inl InvalidIdentifier
      else if list_all (allowed_char pc) idA \<and> list_all (allowed_char pc) idB then
        (let callId = min idA idB @ '':'' @ max idA idB
         in if length callId \<le> max_length pc then Inr callId else Inl InvalidIdentifier)
      else Inl InvalidIdentifier)"

section \<open>The communications platform\<close>

text \<open>
  A \<open>call\<close> is the handle the UI layer holds: the SDK's call object for a call id
  (\<^verbatim>\<open>videoClient.call('default', callId)\<close>), or the object literal that
  \<^verbatim>\<open>initializeVideoCall\<close> builds in demo mode, whose \<^verbatim>\<open>join\<close> and \<^verbatim>\<open>leave\<close> only
  write to the console.
\<close>

datatype call = StreamCall string | MockCall

fun call_id :: "call \<Rightarrow> string" where
  "call_id (StreamCall callId) = callId"
| "call_id MockCall = ''demo-call''"

datatype channel = Channel string string

text \<open>The requests the client sends to the platform, in the order they are sent.\<close>

datatype sdk_request =
    GetOrCreate string "string list"
  | Join string
  | Leave string
  | CreateChannel string string
  | DisconnectVideoUser
  | DisconnectChatUser

record platform =
  sessions :: "(string \<times> string list) list"
  requests :: "sdk_request list"

text \<open>
  What the platform answers at the moment of a request: whether it can be reached,
  whether it accepts the client's token, and whether it accepts creating a session.
\<close>

record sdk_env =
  network_up :: bool
  token_valid :: bool
  accepts_creation :: bool

definition sent :: "sdk_request \<Rightarrow> platform \<Rightarrow> platform" where
  "sent r p = p\<lparr>requests := requests p @ [r]\<rparr>"

text \<open>
  Modelled from the spec: \<^verbatim>\<open>call.getOrCreate\<close> belongs to the external SDK. Following
  sections 3 and 4.2 of the specification, a session record is identified by its
  identifier and has a membership; the operation fetches the record when it exists and
  creates it with the given members otherwise, and it fails with
  \<open>NetworkUnavailable\<close>, \<open>AuthenticationFailed\<close> or (only when creating)
  \<open>SessionCreateFailed\<close>. It returns the membership of the session.
\<close>

definition getOrCreate ::
  "sdk_env \<Rightarrow> string \<Rightarrow> string list \<Rightarrow> platform \<Rightarrow> (js_error + string list) \<times> platform" where
  "getOrCreate env callId members p =
     (let p' = sent (GetOrCreate callId members) p
      in if network_up env then
           (if token_valid env then
              (case map_of (sessions p) callId of
                 Some ms \<Rightarrow> (Inr ms, p')
               | None \<Rightarrow>
                   if accepts_creation env
                   then (Inr members, p'\<lparr>sessions := sessions p @ [(callId, members)]\<rparr>)
                   else (Inl SessionCreateFailed, p'))
            else (Inl AuthenticationFailed, p'))
         else (Inl NetworkUnavailable, p'))"

text \<open>
  \<^verbatim>\<open>call.join()\<close> and \<^verbatim>\<open>call.leave()\<close>: the mock object's methods return without
  touching the platform; the SDK's send the request, which the platform may refuse.
\<close>

definition sdk_answer :: "sdk_env \<Rightarrow> js_error + unit" where
  "sdk_answer env =
     (if network_up env then (if token_valid env then Inr () else Inl AuthenticationFailed)
      else Inl NetworkUnavailable)"

fun join :: "sdk_env \<Rightarrow> call \<Rightarrow> platform \<Rightarrow> (js_error + unit) \<times> platform" where
  "join env MockCall p = (Inr (), p)"
| "join env (StreamCall callId) p = (sdk_answer env, sent (Join callId) p)"

fun leave :: "sdk_env \<Rightarrow> call \<Rightarrow> platform \<Rightarrow> (js_error + unit) \<times> platform" where
  "leave env MockCall p = (Inr (), p)"
| "leave env (StreamCall callId) p = (sdk_answer env, sent (Leave callId) p)"

section \<open>StreamContext\<close>

text \<open>
  What \<^verbatim>\<open>useAuth()\<close> provides: \<open>user\<close> is the id of the signed-in user
  (\<^verbatim>\<open>user.id\<close>), \<open>None\<close> when \<^verbatim>\<open>user\<close> is null.
\<close>

record UserProfile =
  profile_id :: string
  full_name :: string
  email :: string
  role :: string

record auth =
  user :: "string option"
  userProfile :: "UserProfile option"
  isAuthenticated :: bool

datatype client = Client string

text \<open>The \<^verbatim>\<open>useState\<close> cells of \<^verbatim>\<open>StreamProvider\<close>.\<close>

record stream_state =
  videoClient :: "client option"
  videoCall :: "call option"
  videoLoading :: bool
  videoError :: "string option"
  chatClient :: "client option"
  chatChannel :: "channel option"
  chatLoading :: bool
  chatError :: "string option"
  isStreamReady :: bool

definition initial_stream :: stream_state where
  "initial_stream =
     \<lparr>videoClient = None, videoCall = None, videoLoading = False, videoError = None,
      chatClient = None, chatChannel = None, chatLoading = False, chatError = None,
      isStreamReady = False\<rparr>"

text \<open>
  \<^verbatim>\<open>initializeStreamClient\<close>. \<^verbatim>\<open>isDemoMode()\<close>, \<^verbatim>\<open>formatStreamUser\<close>,
  \<^verbatim>\<open>generateUserToken\<close> and the two client constructors come from \<^verbatim>\<open>../lib/stream\<close>;
  \<open>demo\<close> is what \<^verbatim>\<open>isDemoMode()\<close> returns and \<open>connect\<close> is the error the token
  request or a constructor throws, if any.
\<close>

definition initializeStreamClient ::
  "bool \<Rightarrow> js_error option \<Rightarrow> auth \<Rightarrow> stream_state \<Rightarrow> stream_state" where
  "initializeStreamClient demo connect a s =
     (let s1 = s\<lparr>videoLoading := True, chatLoading := True, videoError := None, chatError := None\<rparr>;
          failed = s1\<lparr>videoError := Some ''Failed to initialize video client'',
                      chatError := Some ''Failed to initialize chat client'',
                      videoLoading := False, chatLoading := False\<rparr>
      in if demo then s1\<lparr>isStreamReady := True, videoLoading := False, chatLoading := False\<rparr>
         else
           (case (user a, userProfile a) of
              (Some uid, Some profile) \<Rightarrow>
                (case connect of
                   Some e \<Rightarrow> failed
                 | None \<Rightarrow>
                     s1\<lparr>videoClient := Some (Client uid), chatClient := Some (Client uid),
                        isStreamReady := True, videoLoading := False, chatLoading := False\<rparr>)
            | _ \<Rightarrow> failed))"

text \<open>
  \<^verbatim>\<open>cleanupStream\<close>: the two \<^verbatim>\<open>disconnectUser()\<close> calls are not awaited, so their
  outcome does not reach the function.
\<close>

definition cleanupStream :: "stream_state \<Rightarrow> platform \<Rightarrow> stream_state \<times> platform" where
  "cleanupStream s p =
     (let (s1, p1) = (if videoClient s \<noteq> None
                      then (s\<lparr>videoClient := None\<rparr>, sent DisconnectVideoUser p) else (s, p));
          (s2, p2) = (if chatClient s1 \<noteq> None
                      then (s1\<lparr>chatClient := None\<rparr>, sent DisconnectChatUser p1) else (s1, p1))
      in (s2\<lparr>videoCall := None, chatChannel := None, isStreamReady := False\<rparr>, p2))"

text \<open>The effect on \<^verbatim>\<open>[isAuthenticated, user, userProfile]\<close>.\<close>

definition authEffect ::
  "bool \<Rightarrow> js_error option \<Rightarrow> auth \<Rightarrow> stream_state \<Rightarrow> platform \<Rightarrow> stream_state \<times> platform" where
  "authEffect demo connect a s p =
     (if isAuthenticated a \<and> user a \<noteq> None \<and> userProfile a \<noteq> None
      then (initializeStreamClient demo connect a s, p)
      else cleanupStream s p)"

text \<open>
  \<^verbatim>\<open>initializeChatChannel\<close>. \<^verbatim>\<open>createChatChannel\<close> comes from \<^verbatim>\<open>../lib/stream\<close>; it is
  taken as one request to the platform for the pair of ids it is given.
\<close>

definition initializeChatChannel ::
  "bool \<Rightarrow> sdk_env \<Rightarrow> auth \<Rightarrow> string \<Rightarrow> stream_state \<Rightarrow> platform \<Rightarrow> stream_state \<times> platform" where
  "initializeChatChannel demo env a partnerId s p =
     (let s1 = s\<lparr>chatLoading := True, chatError := None\<rparr>;
          failed = s1\<lparr>chatError := Some ''Failed to initialize chat channel'', chatLoading := False\<rparr>
      in if demo then (s1\<lparr>chatLoading := False\<rparr>, p)
         else
           (case (chatClient s, user a, userProfile a) of
              (Some cc, Some uid, Some profile) \<Rightarrow>
                (case sdk_answer env of
                   Inl e \<Rightarrow> (failed, sent (CreateChannel uid partnerId) p)
                 | Inr u \<Rightarrow>
                     (s1\<lparr>chatChannel := Some (Channel uid partnerId), chatLoading := False\<rparr>,
                      sent (CreateChannel uid partnerId) p))
            | _ \<Rightarrow> (failed, p)))"

text \<open>\<^verbatim>\<open>initializeVideoCall\<close>: the guard on the client comes before the demo branch.\<close>

definition initializeVideoCall ::
  "id_constraints \<Rightarrow> bool \<Rightarrow> sdk_env \<Rightarrow> auth \<Rightarrow> string \<Rightarrow> stream_state \<Rightarrow> platform
     \<Rightarrow> (js_error + call option) \<times> stream_state \<times> platform" where
  "initializeVideoCall pc demo env a partnerId s p =
     (case (videoClient s, user a) of
        (Some vc, Some uid) \<Rightarrow>
          if demo then (Inr (Some MockCall), s\<lparr>videoCall := Some MockCall\<rparr>, p)
          else
            (case createVideoCallId pc uid partnerId of
               Inl e \<Rightarrow> (Inl e, s, p)
             | Inr callId \<Rightarrow>
                 (case getOrCreate env callId [uid, partnerId] p of
                    (Inl e, p') \<Rightarrow> (Inl e, s, p')
                  | (Inr ms, p') \<Rightarrow>
                      (Inr (Some (StreamCall callId)),
                       s\<lparr>videoCall := Some (StreamCall callId)\<rparr>, p')))
      | _ \<Rightarrow> (Inl (Error ''Video client not initialized''), s, p))"

text \<open>\<^verbatim>\<open>joinVideoCall\<close>, \<^verbatim>\<open>startVideoCall\<close> and \<^verbatim>\<open>endVideoCall\<close>.\<close>

definition joinVideoCall ::
  "sdk_env \<Rightarrow> string \<Rightarrow> stream_state \<Rightarrow> platform \<Rightarrow> (js_error + unit) \<times> stream_state \<times> platform" where
  "joinVideoCall env callId s p =
     (case videoClient s of
        None \<Rightarrow> (Inl (Error ''Video client not initialized''), s, p)
      | Some vc \<Rightarrow>
          (case join env (StreamCall callId) p of
             (Inl e, p') \<Rightarrow> (Inl e, s, p')
           | (Inr u, p') \<Rightarrow> (Inr (), s\<lparr>videoCall := Some (StreamCall callId)\<rparr>, p')))"

definition startVideoCall ::
  "bool \<Rightarrow> sdk_env \<Rightarrow> call option \<Rightarrow> stream_state \<Rightarrow> platform
     \<Rightarrow> (js_error + unit) \<times> stream_state \<times> platform" where
  "startVideoCall demo env callToStart s p =
     (case (case callToStart of Some c \<Rightarrow> Some c | None \<Rightarrow> videoCall s) of
        None \<Rightarrow> (Inl (Error ''No video call to start''), s, p)
      | Some c \<Rightarrow>
          if demo then (Inr (), s, p)
          else (case join env c p of (r, p') \<Rightarrow> (r, s, p')))"

definition endVideoCall ::
  "sdk_env \<Rightarrow> stream_state \<Rightarrow> platform \<Rightarrow> (js_error + unit) \<times> stream_state \<times> platform" where
  "endVideoCall env s p =
     (case videoCall s of
        None \<Rightarrow> (Inr (), s, p)
      | Some c \<Rightarrow>
          (case leave env c p of
             (Inl e, p') \<Rightarrow> (Inl e, s, p')
           | (Inr u, p') \<Rightarrow> (Inr (), s\<lparr>videoCall := None\<rparr>, p')))"

section \<open>CoachStudentContext\<close>

text \<open>
  A row of \<^verbatim>\<open>coach_student_assignments\<close> as the query of \<^verbatim>\<open>loadStudents\<close> selects it:
  \<open>user_profiles\<close> is the joined profile of the student, \<open>None\<close> when the join
  yields null.
\<close>

record CoachStudentAssignment =
  coach_id :: string
  student_id :: string
  is_active :: bool
  user_profiles :: "UserProfile option"

text \<open>
  The backing store: the assignment table, and whether a query is answered (\<open>False\<close>:
  the response carries an error). \<^verbatim>\<open>supabase\<close> itself is null when the configuration is
  missing, which is \<open>None\<close> below.
\<close>

record backend =
  coach_student_assignments :: "CoachStudentAssignment list"
  answers :: bool

text \<open>The \<^verbatim>\<open>useState\<close> cells of \<^verbatim>\<open>CoachStudentProvider\<close>.\<close>

record coach_student_state =
  selectedStudent :: "UserProfile option"
  availableStudents :: "UserProfile list"
  loading :: bool
  error :: "string option"

definition initial_coach_student :: coach_student_state where
  "initial_coach_student =
     \<lparr>selectedStudent = None, availableStudents = [], loading = False, error = None\<rparr>"

text \<open>
  \<^verbatim>\<open>loadStudents\<close> in its two halves: up to the \<^verbatim>\<open>await\<close> of the query, and from the
  response on. \<open>loadStudents_called\<close> returns whether a query is now pending.
\<close>

definition loadStudents_called ::
  "backend option \<Rightarrow> UserProfile option \<Rightarrow> coach_student_state \<Rightarrow> bool \<times> coach_student_state" where
  "loadStudents_called supabase profile c =
     (if map_option role profile \<noteq> Some ''coach'' then (False, c)
      else if supabase = None then (False, c\<lparr>error := Some ''Database connection not available''\<rparr>)
      else (True, c\<lparr>loading := True, error := None\<rparr>))"

definition students_of :: "CoachStudentAssignment list \<Rightarrow> UserProfile list" where
  "students_of assignments = List.map_filter user_profiles assignments"

definition loadStudents_settled ::
  "backend \<Rightarrow> UserProfile \<Rightarrow> coach_student_state \<Rightarrow> coach_student_state" where
  "loadStudents_settled db profile c =
     (if answers db then
        c\<lparr>availableStudents :=
             students_of (filter (\<lambda>r. coach_id r = profile_id profile \<and> is_active r)
                            (coach_student_assignments db)),
          loading := False\<rparr>
      else c\<lparr>error := Some ''Failed to load students'', loading := False\<rparr>)"

definition loadStudents ::
  "backend option \<Rightarrow> UserProfile option \<Rightarrow> coach_student_state \<Rightarrow> coach_student_state" where
  "loadStudents supabase profile c =
     (case loadStudents_called supabase profile c of
        (False, c1) \<Rightarrow> c1
      | (True, c1) \<Rightarrow>
          (case (supabase, profile) of
             (Some db, Some pr) \<Rightarrow> loadStudents_settled db pr c1
           | _ \<Rightarrow> c1))"

definition selectStudent :: "UserProfile \<Rightarrow> coach_student_state \<Rightarrow> coach_student_state" where
  "selectStudent student c = c\<lparr>selectedStudent := Some student\<rparr>"

section \<open>CoachStudentSelectionScreen\<close>

text \<open>
  What the screen renders: the loading indicator, or the selection view with its three
  conditional parts. \<open>student_list\<close> is the data of the \<^verbatim>\<open>FlatList\<close>, \<open>None\<close> when the
  list is not rendered.
\<close>

record selection_view =
  retry_shown :: bool
  empty_notice :: bool
  student_list :: "UserProfile list option"

datatype selection_screen = LoadingStudents | SelectStudent selection_view

definition CoachStudentSelectionScreen :: "coach_student_state \<Rightarrow> selection_screen" where
  "CoachStudentSelectionScreen c =
     (if loading c \<and> length (availableStudents c) = 0 then LoadingStudents
      else SelectStudent
        \<lparr>retry_shown = (error c \<noteq> None),
         empty_notice = (length (availableStudents c) = 0 \<and> \<not> loading c \<and> error c = None),
         student_list = (if length (availableStudents c) > 0 then Some (availableStudents c) else None)\<rparr>)"

section \<open>AppNavigator\<close>

datatype screen = AuthLoading | LoginScreen | MainTabs | StudentSelection

definition renderMainContent :: "UserProfile option \<Rightarrow> bool \<Rightarrow> screen" where
  "renderMainContent profile studentSelected =
     (if map_option role profile = Some ''student'' then MainTabs
      else if map_option role profile = Some ''coach'' then
        (if \<not> studentSelected then StudentSelection else MainTabs)
      else MainTabs)"

definition AppNavigator :: "bool \<Rightarrow> auth \<Rightarrow> bool \<Rightarrow> screen" where
  "AppNavigator authLoading a studentSelected =
     (if authLoading then AuthLoading
      else if \<not> isAuthenticated a then LoginScreen
      else renderMainContent (userProfile a) studentSelected)"

section \<open>Session times\<close>

text \<open>
  A JavaScript number that is either an integer or \<^verbatim>\<open>NaN\<close> (\<open>None\<close>); every
  comparison with \<^verbatim>\<open>NaN\<close> is false.
\<close>

type_synonym jsnum = "int option"

definition js_gt :: "jsnum \<Rightarrow> int \<Rightarrow> bool" where
  "js_gt x k = (case x of None \<Rightarrow> False | Some v \<Rightarrow> v > k)"

definition js_lt :: "jsnum \<Rightarrow> int \<Rightarrow> bool" where
  "js_lt x k = (case x of None \<Rightarrow> False | Some v \<Rightarrow> v < k)"

definition js_ge :: "jsnum \<Rightarrow> int \<Rightarrow> bool" where
  "js_ge x k = (case x of None \<Rightarrow> False | Some v \<Rightarrow> v \<ge> k)"

definition js_le :: "jsnum \<Rightarrow> int \<Rightarrow> bool" where
  "js_le x k = (case x of None \<Rightarrow> False | Some v \<Rightarrow> v \<le> k)"

record Task =
  task_id :: string
  title :: string
  assigned_by :: string
  assigned_to :: string
  scheduled_date :: "string option"
  scheduled_start_time :: "string option"

text \<open>
  The instant of a session, in milliseconds: \<^verbatim>\<open>new Date(scheduled_date)\<close> followed by
  \<^verbatim>\<open>setHours(hours, minutes, 0, 0)\<close> with the two numbers read from the start time, then
  \<^verbatim>\<open>getTime()\<close>. The runtime's calendar and time zone are the parameter \<open>dateMs\<close>, which
  gives \<^verbatim>\<open>NaN\<close> when either string does not parse; an undefined date gives \<^verbatim>\<open>NaN\<close>.
\<close>

definition sessionTimeMs :: "(string \<Rightarrow> string \<Rightarrow> jsnum) \<Rightarrow> string option \<Rightarrow> string \<Rightarrow> jsnum" where
  "sessionTimeMs dateMs date sessionTime =
     (case date of None \<Rightarrow> None | Some d \<Rightarrow> dateMs d sessionTime)"

text \<open>
  \<^verbatim>\<open>Math.floor(timeDiff / (1000 * 60))\<close>; \<open>div\<close> on \<open>int\<close> rounds down. The
  instants of \<^verbatim>\<open>Date\<close> are integers of magnitude at most 8.64e15, so a difference from
  the present is below 2^53 in magnitude, where the floor of the floating-point quotient
  is the integer quotient.
\<close>

definition minutesUntilSession ::
  "(string \<Rightarrow> string \<Rightarrow> jsnum) \<Rightarrow> Task \<Rightarrow> string \<Rightarrow> int \<Rightarrow> jsnum" where
  "minutesUntilSession dateMs session sessionTime now =
     map_option (\<lambda>t. (t - now) div (1000 * 60))
       (sessionTimeMs dateMs (scheduled_date session) sessionTime)"

section \<open>HomeScreen\<close>

text \<open>
  The alerts of \<^verbatim>\<open>handleJoinSession\<close> and \<^verbatim>\<open>handleStartVideoCall\<close>, one constructor for
  each \<^verbatim>\<open>Alert.alert\<close> in the source, named after its title: demo mode, session not
  started yet (with the minutes it shows), session over, joined, the error alert of the
  \<^verbatim>\<open>catch\<close>, no partner, and call not started.
\<close>

datatype alert =
    DemoModeAlert
  | NotStartedAlert jsnum
  | SessionOverAlert
  | JoinedAlert
  | JoinErrorAlert
  | NoPartnerAlert
  | StartCallErrorAlert

text \<open>
  \<^verbatim>\<open>handleJoinSession\<close>. \<^verbatim>\<open>initializeVideoCall\<close> and \<^verbatim>\<open>startVideoCall\<close> are the
  functions the component takes from \<^verbatim>\<open>useStream()\<close>; they act on a state \<open>'st\<close>.
  A missing start time makes \<^verbatim>\<open>sessionTime.split\<close> throw, which the \<^verbatim>\<open>catch\<close> turns
  into the error alert.
\<close>

definition handleJoinSession ::
  "(string \<Rightarrow> 'st \<Rightarrow> (js_error + call option) \<times> 'st) \<Rightarrow>
   (call option \<Rightarrow> 'st \<Rightarrow> (js_error + unit) \<times> 'st) \<Rightarrow>
   bool \<Rightarrow> (string \<Rightarrow> string \<Rightarrow> jsnum) \<Rightarrow> UserProfile option \<Rightarrow> Task \<Rightarrow> int \<Rightarrow> 'st
     \<Rightarrow> alert list \<times> 'st" where
  "handleJoinSession initVideoCall startCall isDemoMode dateMs profile session now st =
     (if isDemoMode then ([DemoModeAlert], st)
      else
        (case scheduled_start_time session of
           None \<Rightarrow> ([JoinErrorAlert], st)
         | Some sessionTime \<Rightarrow>
             (let minutes = minutesUntilSession dateMs session sessionTime now
              in if js_gt minutes 10 then ([NotStartedAlert minutes], st)
                 else if js_lt minutes (- 60) then ([SessionOverAlert], st)
                 else
                   (let partnerId = (if map_option role profile = Some ''student''
                                     then assigned_by session else assigned_to session)
                    in case initVideoCall partnerId st of
                         (Inl e, st1) \<Rightarrow> ([JoinErrorAlert], st1)
                       | (Inr None, st1) \<Rightarrow> ([], st1)
                       | (Inr (Some c), st1) \<Rightarrow>
                           (case startCall (Some c) st1 of
                              (Inl e, st2) \<Rightarrow> ([JoinErrorAlert], st2)
                            | (Inr u, st2) \<Rightarrow> ([JoinedAlert], st2))))))"

text \<open>The partner of a session, as \<^verbatim>\<open>handleJoinSession\<close> picks it.\<close>

definition join_partner :: "UserProfile option \<Rightarrow> Task \<Rightarrow> string" where
  "join_partner profile session =
     (if map_option role profile = Some ''student'' then assigned_by session else assigned_to session)"

datatype status_label = MinutesLater jsnum | CanJoinNow | SessionOver

record session_status =
  statusText :: status_label
  color :: string
  canJoin :: bool

text \<open>\<^verbatim>\<open>getSessionStatus\<close> has no \<^verbatim>\<open>catch\<close>: a missing start time is a \<open>TypeError\<close>.\<close>

definition getSessionStatus ::
  "(string \<Rightarrow> string \<Rightarrow> jsnum) \<Rightarrow> Task \<Rightarrow> int \<Rightarrow> js_error + session_status" where
  "getSessionStatus dateMs session now =
     (case scheduled_start_time session of
        None \<Rightarrow> Inl TypeError
      | Some sessionTime \<Rightarrow>
          (let minutes = minutesUntilSession dateMs session sessionTime now
           in if js_gt minutes 10
              then Inr \<lparr>statusText = MinutesLater minutes, color = ''#6B7280'', canJoin = False\<rparr>
              else if js_ge minutes (- 60)
              then Inr \<lparr>statusText = CanJoinNow, color = ''#10B981'', canJoin = True\<rparr>
              else Inr \<lparr>statusText = SessionOver, color = ''#EF4444'', canJoin = False\<rparr>))"

section \<open>NotificationService\<close>

datatype reminder = Reminder24h | Reminder1h | Reminder15m

text \<open>
  \<^verbatim>\<open>Notifications.scheduleNotificationAsync\<close>: \<open>accepted\<close> says whether the platform
  schedules the reminder; when it throws, the \<^verbatim>\<open>catch\<close> of \<^verbatim>\<open>scheduleSessionReminders\<close>
  ends the function with what was scheduled before.
\<close>

definition scheduleNotificationAsync ::
  "(reminder \<Rightarrow> bool) \<Rightarrow> reminder \<Rightarrow> jsnum \<Rightarrow> (reminder \<times> jsnum) list
     \<Rightarrow> (reminder \<times> jsnum) list + (reminder \<times> jsnum) list" where
  "scheduleNotificationAsync accepted r trigger scheduled =
     (if accepted r then Inr (scheduled @ [(r, trigger)]) else Inl scheduled)"

text \<open>In JavaScript an undefined and an empty string are both falsy.\<close>

definition truthy :: "string option \<Rightarrow> string option" where
  "truthy x = (case x of Some [] \<Rightarrow> None | _ \<Rightarrow> x)"

text \<open>\<^verbatim>\<open>scheduleSessionReminders\<close>: the result lists the notifications scheduled, in order.\<close>

definition scheduleSessionReminders ::
  "(string \<Rightarrow> string \<Rightarrow> jsnum) \<Rightarrow> (reminder \<Rightarrow> bool) \<Rightarrow> Task \<Rightarrow> int \<Rightarrow> (reminder \<times> jsnum) list" where
  "scheduleSessionReminders dateMs accepted session now =
     (case (truthy (scheduled_date session), truthy (scheduled_start_time session)) of
        (Some date, Some startTime) \<Rightarrow>
          (let sessionTime = dateMs date startTime
           in if js_le sessionTime now then []
              else
                (let reminder24h = map_option (\<lambda>t. t - 24 * 60 * 60 * 1000) sessionTime;
                     reminder1h = map_option (\<lambda>t. t - 60 * 60 * 1000) sessionTime;
                     reminder15m = map_option (\<lambda>t. t - 15 * 60 * 1000) sessionTime
                 in case (if js_gt reminder24h now
                          then scheduleNotificationAsync accepted Reminder24h reminder24h []
                          else Inr []) of
                      Inl done \<Rightarrow> done
                    | Inr s1 \<Rightarrow>
                        (case (if js_gt reminder1h now
                               then scheduleNotificationAsync accepted Reminder1h reminder1h s1
                               else Inr s1) of
                           Inl done \<Rightarrow> done
                         | Inr s2 \<Rightarrow>
                             (case (if js_gt reminder15m now
                                    then scheduleNotificationAsync accepted Reminder15m reminder15m s2
                                    else Inr s2) of
                                Inl done \<Rightarrow> done
                              | Inr s3 \<Rightarrow> s3))))
      | _ \<Rightarrow> [])"

text \<open>How long before the session each reminder is due, in milliseconds.\<close>

fun reminder_offset :: "reminder \<Rightarrow> int" where
  "reminder_offset Reminder24h = 24 * 60 * 60 * 1000"
| "reminder_offset Reminder1h = 60 * 60 * 1000"
| "reminder_offset Reminder15m = 15 * 60 * 1000"

section \<open>VideoCallTabScreen and ChatScreen\<close>

text \<open>
  The partner of the video and chat tabs, as their effects set it: the assigned coach
  for a student, the selected student for a coach, nobody for any other role.
\<close>

definition callPartner ::
  "UserProfile option \<Rightarrow> UserProfile option \<Rightarrow> UserProfile option \<Rightarrow> UserProfile option" where
  "callPartner profile coach student =
     (if map_option role profile = Some ''student'' then coach
      else if map_option role profile = Some ''coach'' then student
      else None)"

definition handleStartVideoCall ::
  "(string \<Rightarrow> 'st \<Rightarrow> (js_error + call option) \<times> 'st) \<Rightarrow> UserProfile option \<Rightarrow> 'st
     \<Rightarrow> alert list \<times> 'st" where
  "handleStartVideoCall initVideoCall partner st =
     (case partner of
        None \<Rightarrow> ([NoPartnerAlert], st)
      | Some pr \<Rightarrow>
          (case initVideoCall (profile_id pr) st of
             (Inl e, st1) \<Rightarrow> ([StartCallErrorAlert], st1)
           | (Inr c, st1) \<Rightarrow> ([], st1)))"

section \<open>The signed-in application\<close>

text \<open>
  What stays fixed while a user is signed in: demo mode, the platform's identifier
  constraints, the backing store and the runtime's calendar.
\<close>

record config =
  cfg_demo :: bool
  cfg_constraints :: id_constraints
  cfg_supabase :: "backend option"
  cfg_dateMs :: "string \<Rightarrow> string \<Rightarrow> jsnum"

text \<open>
  The state of the component tree under \<^verbatim>\<open>AppNavigator\<close>: the authentication context,
  the flag of \<^verbatim>\<open>AuthenticatedApp\<close>, the provider states, the coach the tabs fetched for a
  student, the platform, and the alerts shown so far.
\<close>

record app =
  signedIn :: auth
  studentSelected :: bool
  coachStudent :: coach_student_state
  assignedCoach :: "UserProfile option"
  stream :: stream_state
  remote :: platform
  shown :: "alert list"

text \<open>
  The events of the interface. A handler runs only while the element that carries it is
  rendered and enabled; an event that finds its element missing leaves the state as it
  is. \<open>LoadStudentsCalled\<close> stands for every invocation of \<^verbatim>\<open>loadStudents\<close> (the two
  mount effects, the retry button and the pull-to-refresh), \<open>LoadStudentsSettled\<close> for
  the arrival of the response. The events of the tabs carry what the outside world
  supplies at that moment: the fetched coach, the session row, the clock, the platform's
  answer. The call button of the video tab exists while a partner is known and is
  enabled while the stream is ready and not loading; the join button of a session is
  enabled while \<^verbatim>\<open>getSessionStatus\<close> says so; the chat effect runs under the condition
  written in \<^verbatim>\<open>ChatScreen\<close>. The local flag that lets the call screen cover the video tab
  is not part of the state, so the call button is taken to be reachable whenever it
  exists. Once a call is held, \<^verbatim>\<open>AuthenticatedApp\<close> navigates to the video tab, which
  renders \<^verbatim>\<open>VideoCallScreen\<close>, whose effect calls \<^verbatim>\<open>startVideoCall()\<close> on the held call
  without awaiting or catching it: \<open>autoJoin\<close>. It runs after each of the two handlers
  that can set the call, and again whenever the effect's dependencies change, which is
  the event \<open>VideoCallScreenEffect\<close>. Signing out ends the signed-in application and is
  not among the events.
\<close>

datatype event =
    LoadStudentsCalled
  | LoadStudentsSettled
  | PressStudent nat
  | AssignedCoachFetched "UserProfile option"
  | PressStartVideoCall sdk_env
  | PressJoinSession Task int sdk_env
  | ChatScreenEffect sdk_env
  | VideoCallScreenEffect sdk_env

definition current_screen :: "app \<Rightarrow> screen" where
  "current_screen a = AppNavigator False (signedIn a) (studentSelected a)"

definition tab_partner :: "app \<Rightarrow> UserProfile option" where
  "tab_partner a =
     callPartner (userProfile (signedIn a)) (assignedCoach a) (selectedStudent (coachStudent a))"

definition run_initializeVideoCall ::
  "config \<Rightarrow> sdk_env \<Rightarrow> auth \<Rightarrow> string \<Rightarrow> stream_state \<times> platform
     \<Rightarrow> (js_error + call option) \<times> stream_state \<times> platform" where
  "run_initializeVideoCall cfg env who partnerId st =
     initializeVideoCall (cfg_constraints cfg) (cfg_demo cfg) env who partnerId (fst st) (snd st)"

definition run_startVideoCall ::
  "config \<Rightarrow> sdk_env \<Rightarrow> call option \<Rightarrow> stream_state \<times> platform
     \<Rightarrow> (js_error + unit) \<times> stream_state \<times> platform" where
  "run_startVideoCall cfg env c st = startVideoCall (cfg_demo cfg) env c (fst st) (snd st)"

definition with_outcome :: "app \<Rightarrow> alert list \<times> stream_state \<times> platform \<Rightarrow> app" where
  "with_outcome a r =
     a\<lparr>stream := fst (snd r), remote := snd (snd r), shown := shown a @ fst r\<rparr>"

definition autoJoin :: "config \<Rightarrow> sdk_env \<Rightarrow> app \<Rightarrow> app" where
  "autoJoin cfg env a =
     (if videoCall (stream a) \<noteq> None then
        (case startVideoCall (cfg_demo cfg) env None (stream a) (remote a) of
           (r, s', p') \<Rightarrow> a\<lparr>stream := s', remote := p'\<rparr>)
      else a)"

fun step :: "config \<Rightarrow> app \<Rightarrow> event \<Rightarrow> app" where
  "step cfg a LoadStudentsCalled =
     (if current_screen a \<in> {MainTabs, StudentSelection}
      then a\<lparr>coachStudent :=
               snd (loadStudents_called (cfg_supabase cfg) (userProfile (signedIn a)) (coachStudent a))\<rparr>
      else a)"
| "step cfg a LoadStudentsSettled =
     (if current_screen a \<in> {MainTabs, StudentSelection} \<and> loading (coachStudent a) then
        (case (cfg_supabase cfg, userProfile (signedIn a)) of
           (Some db, Some pr) \<Rightarrow> a\<lparr>coachStudent := loadStudents_settled db pr (coachStudent a)\<rparr>
         | _ \<Rightarrow> a)
      else a)"
| "step cfg a (PressStudent i) =
     (if current_screen a = StudentSelection then
        (case CoachStudentSelectionScreen (coachStudent a) of
           LoadingStudents \<Rightarrow> a
         | SelectStudent v \<Rightarrow>
             (case student_list v of
                None \<Rightarrow> a
              | Some students \<Rightarrow>
                  if i < length students
                  then a\<lparr>coachStudent := selectStudent (students ! i) (coachStudent a),
                         studentSelected := True\<rparr>
                  else a))
      else a)"
| "step cfg a (AssignedCoachFetched coach) =
     (if current_screen a = MainTabs \<and> map_option role (userProfile (signedIn a)) = Some ''student''
      then (case coach of None \<Rightarrow> a | Some c \<Rightarrow> a\<lparr>assignedCoach := Some c\<rparr>)
      else a)"
| "step cfg a (PressStartVideoCall env) =
     (if current_screen a = MainTabs \<and> tab_partner a \<noteq> None
         \<and> isStreamReady (stream a) \<and> \<not> videoLoading (stream a)
      then autoJoin cfg env
             (with_outcome a
                (handleStartVideoCall (run_initializeVideoCall cfg env (signedIn a))
                   (tab_partner a) (stream a, remote a)))
      else a)"
| "step cfg a (PressJoinSession session now env) =
     (if current_screen a = MainTabs
         \<and> map_sum id canJoin (getSessionStatus (cfg_dateMs cfg) session now) = Inr True
      then autoJoin cfg env
             (with_outcome a
                (handleJoinSession (run_initializeVideoCall cfg env (signedIn a))
                   (run_startVideoCall cfg env) (cfg_demo cfg) (cfg_dateMs cfg)
                   (userProfile (signedIn a)) session now (stream a, remote a)))
      else a)"
| "step cfg a (ChatScreenEffect env) =
     (if current_screen a = MainTabs \<and> tab_partner a \<noteq> None \<and> chatClient (stream a) \<noteq> None
         \<and> chatChannel (stream a) = None \<and> \<not> chatLoading (stream a)
         \<and> chatError (stream a) = None \<and> \<not> cfg_demo cfg
      then (case tab_partner a of
              None \<Rightarrow> a
            | Some pr \<Rightarrow>
                (case initializeChatChannel (cfg_demo cfg) env (signedIn a) (profile_id pr)
                        (stream a) (remote a) of
                   (s', p') \<Rightarrow> a\<lparr>stream := s', remote := p'\<rparr>))
      else a)"
| "step cfg a (VideoCallScreenEffect env) =
     (if current_screen a = MainTabs then autoJoin cfg env a else a)"

definition run :: "config \<Rightarrow> app \<Rightarrow> event list \<Rightarrow> app" where
  "run cfg a es = foldl (step cfg) a es"

text \<open>The state right after sign-in, with the clients of \<^verbatim>\<open>StreamProvider\<close> as given.\<close>

definition signed_in :: "auth \<Rightarrow> stream_state \<Rightarrow> platform \<Rightarrow> app" where
  "signed_in who s p =
     \<lparr>signedIn = who, studentSelected = False, coachStudent = initial_coach_student,
      assignedCoach = None, stream = s, remote = p, shown = []\<rparr>"

text \<open>
  Two invariants of the signed-in application. \<open>picked\<close>: the flag of
  \<^verbatim>\<open>AuthenticatedApp\<close> is set exactly when a student has been selected. \<open>idle\<close>: the
  user is still \<open>who\<close>, no student has been selected, none is listed, and the stream
  state, the platform and the alerts are what they were at sign-in.
\<close>

definition picked :: "app \<Rightarrow> bool" where
  "picked a = (studentSelected a = (selectedStudent (coachStudent a) \<noteq> None))"

definition idle :: "auth \<Rightarrow> stream_state \<Rightarrow> platform \<Rightarrow> app \<Rightarrow> bool" where
  "idle who s p a =
     (signedIn a = who \<and> studentSelected a = False \<and> availableStudents (coachStudent a) = []
      \<and> stream a = s \<and> remote a = p \<and> shown a = [])"

section \<open>Example data\<close>

definition example_constraints :: id_constraints where
  "example_constraints = \<lparr>allowed_char = (\<lambda>c. c \<noteq> CHR '':''), max_length = 64\<rparr>"

definition online :: sdk_env where
  "online = \<lparr>network_up = True, token_valid = True, accepts_creation = True\<rparr>"

definition rejecting :: sdk_env where
  "rejecting = \<lparr>network_up = True, token_valid = True, accepts_creation = False\<rparr>"

definition offline :: sdk_env where
  "offline = \<lparr>network_up = False, token_valid = True, accepts_creation = True\<rparr>"

definition empty_platform :: platform where
  "empty_platform = \<lparr>sessions = [], requests = []\<rparr>"

definition student_u1 :: UserProfile where
  "student_u1 = \<lparr>profile_id = ''u1'', full_name = ''Ada'', email = ''ada@example.org'', role = ''student''\<rparr>"

definition coach_u2 :: UserProfile where
  "coach_u2 = \<lparr>profile_id = ''u2'', full_name = ''Bea'', email = ''bea@example.org'', role = ''coach''\<rparr>"

definition admin_u3 :: UserProfile where
  "admin_u3 = \<lparr>profile_id = ''u3'', full_name = ''Cem'', email = ''cem@example.org'', role = ''admin''\<rparr>"

definition as_user :: "UserProfile \<Rightarrow> auth" where
  "as_user pr = \<lparr>user = Some (profile_id pr), userProfile = Some pr, isAuthenticated = True\<rparr>"

definition signed_out :: auth where
  "signed_out = \<lparr>user = None, userProfile = None, isAuthenticated = False\<rparr>"

definition ready_stream :: "UserProfile \<Rightarrow> stream_state" where
  "ready_stream pr = initializeStreamClient False None (as_user pr) initial_stream"

definition in_call :: stream_state where
  "in_call = (ready_stream student_u1)\<lparr>videoCall := Some (StreamCall ''u1:u2'')\<rparr>"

definition one_session :: platform where
  "one_session = \<lparr>sessions = [(''u1:u2'', [''u1'', ''u2''])],
                   requests = [GetOrCreate ''u1:u2'' [''u1'', ''u2'']]\<rparr>"

text \<open>
  The calendar of a runtime in the time zone UTC, restricted to one session: the date
  1970-01-02 parses to midnight UTC (86400000 ms), and \<^verbatim>\<open>setHours(0, 11, 0, 0)\<close>, which
  takes the hours and minutes of the start time 00:11:00 and sets the seconds to zero,
  gives 87060000 ms. Every other pair of strings is taken not to parse.
\<close>

definition fixed_calendar :: "string \<Rightarrow> string \<Rightarrow> jsnum" where
  "fixed_calendar date startTime =
     (if date = ''1970-01-02'' \<and> startTime = ''00:11:00'' then Some 87060000 else None)"

definition example_session :: Task where
  "example_session =
     \<lparr>task_id = ''t1'', title = ''Weekly session'', assigned_by = ''u2'', assigned_to = ''u1'',
      scheduled_date = Some ''1970-01-02'', scheduled_start_time = Some ''00:11:00''\<rparr>"

definition always :: "reminder \<Rightarrow> bool" where
  "always r = True"

text \<open>
  Two backing stores: in the first, coach u2 has student u1 assigned; in the second, the
  only assignment of u2 is inactive and the active one belongs to another coach.
\<close>

definition assigned_backend :: backend where
  "assigned_backend =
     \<lparr>coach_student_assignments =
        [\<lparr>coach_id = ''u2'', student_id = ''u1'', is_active = True, user_profiles = Some student_u1\<rparr>],
      answers = True\<rparr>"

definition unassigned_backend :: backend where
  "unassigned_backend =
     \<lparr>coach_student_assignments =
        [\<lparr>coach_id = ''u2'', student_id = ''u1'', is_active = False, user_profiles = Some student_u1\<rparr>,
         \<lparr>coach_id = ''u9'', student_id = ''u1'', is_active = True, user_profiles = Some student_u1\<rparr>],
      answers = True\<rparr>"

definition example_config :: "backend \<Rightarrow> config" where
  "example_config db =
     \<lparr>cfg_demo = False, cfg_constraints = example_constraints, cfg_supabase = Some db,
      cfg_dateMs = fixed_calendar\<rparr>"

section \<open>Identity deriver: properties\<close>

lemma createVideoCallId_example:
  "createVideoCallId example_constraints ''u2'' ''u1'' = Inr ''u1:u2''"
  by (simp add: createVideoCallId_def example_constraints_def min_def max_def)

text \<open>
  C1: the derivation of the call identifier is commutative: for every pair of participant
  identifiers and whatever the platform's constraints are, deriving from (A, B) and from
  (B, A) gives the same outcome, the same identifier or the same rejection.
\<close>

theorem createVideoCallId_commutative:
  "createVideoCallId pc idA idB = createVideoCallId pc idB idA"
  by (simp add: createVideoCallId_def min.commute max.commute conj_commute disj_commute)

text \<open>
  C8: an empty identifier on either side is rejected with \<open>InvalidIdentifier\<close>, and
  \<^verbatim>\<open>initializeVideoCall\<close>, with its client ready and demo mode off, passes the rejection
  on with the state and the platform untouched: no request has been sent.
\<close>

theorem createVideoCallId_empty_rejected:
  assumes "videoClient s = Some vc" and "user who = Some uid"
  shows "createVideoCallId pc [] x = Inl InvalidIdentifier
       \<and> createVideoCallId pc x [] = Inl InvalidIdentifier
       \<and> initializeVideoCall pc False env who [] s p = (Inl InvalidIdentifier, s, p)"
  using assms by (simp add: createVideoCallId_def initializeVideoCall_def)

lemma ready_stream_client: "videoClient (ready_stream pr) = Some (Client (profile_id pr))"
  by (simp add: ready_stream_def initializeStreamClient_def initial_stream_def as_user_def Let_def)

lemma as_user_id: "user (as_user pr) = Some (profile_id pr)"
  by (simp add: as_user_def)

theorem createVideoCallId_empty_rejected_witness:
  "createVideoCallId example_constraints [] ''x'' = Inl InvalidIdentifier
   \<and> createVideoCallId example_constraints ''x'' [] = Inl InvalidIdentifier
   \<and> initializeVideoCall example_constraints False online (as_user student_u1) []
        (ready_stream student_u1) empty_platform
      = (Inl InvalidIdentifier, ready_stream student_u1, empty_platform)"
  using createVideoCallId_empty_rejected
      [where s = "ready_stream student_u1" and who = "as_user student_u1"
         and pc = example_constraints and x = "''x''" and env = online and p = empty_platform,
       OF ready_stream_client as_user_id]
  by simp

section \<open>StreamContext: properties\<close>

lemma sessions_sent [simp]: "sessions (sent r p) = sessions p"
  by (simp add: sent_def)

lemma requests_sent [simp]: "requests (sent r p) = requests p @ [r]"
  by (simp add: sent_def)

text \<open>
  C2 (the code at the failing input): in demo mode \<^verbatim>\<open>initializeStreamClient\<close> returns
  before it creates a client, so the guard at the top of \<^verbatim>\<open>initializeVideoCall\<close> throws
  and the branch that builds the mock call is not reached.
\<close>

theorem initializeVideoCall_demo_mode_throws:
  "initializeVideoCall pc True env who partnerId
     (initializeStreamClient True connect who initial_stream) p
   = (Inl (Error ''Video client not initialized''),
      initializeStreamClient True connect who initial_stream, p)"
  by (simp add: initializeVideoCall_def initializeStreamClient_def initial_stream_def Let_def)

lemma initializeStreamClient_demo_keeps_client:
  "videoClient (initializeStreamClient True connect who s) = videoClient s"
  by (simp add: initializeStreamClient_def Let_def)

lemma authEffect_demo_no_client:
  "videoClient s = None \<Longrightarrow> videoClient (fst (authEffect True connect who s p)) = None"
  by (simp add: authEffect_def initializeStreamClient_demo_keeps_client cleanupStream_def Let_def)

lemma initializeVideoCall_mock_needs_client:
  "initializeVideoCall pc demo env who partnerId s p = (Inr (Some MockCall), s', p')
   \<Longrightarrow> demo \<and> videoClient s \<noteq> None"
  by (auto simp: initializeVideoCall_def split: option.splits sum.splits prod.splits if_splits)

text \<open>
  C3: \<^verbatim>\<open>endVideoCall\<close> with no call held returns normally and leaves the provider's state
  and the platform exactly as they were.
\<close>

theorem endVideoCall_without_call:
  "videoCall s = None \<Longrightarrow> endVideoCall env s p = (Inr (), s, p)"
  by (simp add: endVideoCall_def)

theorem endVideoCall_without_call_witness:
  "videoCall initial_stream = None
   \<and> endVideoCall offline initial_stream empty_platform = (Inr (), initial_stream, empty_platform)"
proof -
  have h: "videoCall initial_stream = None" by (simp add: initial_stream_def)
  show ?thesis using h endVideoCall_without_call [OF h] by simp
qed

lemma getOrCreate_existing:
  "map_of (sessions p) callId = Some ms \<Longrightarrow>
   getOrCreate env callId members p =
     ((if network_up env then (if token_valid env then Inr ms else Inl AuthenticationFailed)
       else Inl NetworkUnavailable),
      sent (GetOrCreate callId members) p)"
  by (simp add: getOrCreate_def Let_def)

lemma getOrCreate_success:
  "getOrCreate env callId members p = (Inr ms, p') \<Longrightarrow> map_of (sessions p') callId = Some ms"
  by (auto simp: getOrCreate_def Let_def map_add_def split: if_splits option.splits)

lemma getOrCreate_distinct:
  "distinct (map fst (sessions p))
   \<Longrightarrow> distinct (map fst (sessions (snd (getOrCreate env callId members p))))"
  by (auto simp: getOrCreate_def Let_def map_of_eq_None_iff split: if_splits option.splits)

lemma initializeVideoCall_success:
  assumes "initializeVideoCall pc False env who partnerId s p = (Inr (Some c), s1, p1)"
  obtains vc uid callId ms where
    "videoClient s = Some vc" "user who = Some uid"
    "createVideoCallId pc uid partnerId = Inr callId"
    "getOrCreate env callId [uid, partnerId] p = (Inr ms, p1)"
    "c = StreamCall callId" "s1 = s\<lparr>videoCall := Some (StreamCall callId)\<rparr>"
  using assms
  by (auto simp: initializeVideoCall_def split: option.splits sum.splits prod.splits)

text \<open>
  C4: when a first \<^verbatim>\<open>initializeVideoCall\<close> for a partner has succeeded, a second one for
  the same partner, whatever the platform's answer is then, does not fail with
  \<open>SessionCreateFailed\<close> and leaves the platform's session records as they are (no
  second record); the session of the handle exists with its membership, and whenever the
  platform can be reached with a valid token the second call returns the same handle and
  the same provider state. Session identifiers stay unique.
\<close>

theorem initializeVideoCall_idempotent:
  assumes first: "initializeVideoCall pc False env1 who partnerId s p = (Inr (Some c), s1, p1)"
  shows "fst (initializeVideoCall pc False env2 who partnerId s1 p1) \<noteq> Inl SessionCreateFailed
       \<and> sessions (snd (snd (initializeVideoCall pc False env2 who partnerId s1 p1))) = sessions p1
       \<and> (\<exists>ms. map_of (sessions p1) (call_id c) = Some ms)
       \<and> (network_up env2 \<and> token_valid env2 \<longrightarrow>
            fst (initializeVideoCall pc False env2 who partnerId s1 p1) = Inr (Some c)
            \<and> fst (snd (initializeVideoCall pc False env2 who partnerId s1 p1)) = s1)
       \<and> (distinct (map fst (sessions p)) \<longrightarrow> distinct (map fst (sessions p1)))"
proof -
  from first obtain vc uid callId ms where
    vc: "videoClient s = Some vc" and uid: "user who = Some uid"
    and cid: "createVideoCallId pc uid partnerId = Inr callId"
    and goc: "getOrCreate env1 callId [uid, partnerId] p = (Inr ms, p1)"
    and c: "c = StreamCall callId" and s1: "s1 = s\<lparr>videoCall := Some (StreamCall callId)\<rparr>"
    by (rule initializeVideoCall_success)
  from goc have found: "map_of (sessions p1) callId = Some ms"
    by (rule getOrCreate_success)
  have second: "initializeVideoCall pc False env2 who partnerId s1 p1 =
      (case getOrCreate env2 callId [uid, partnerId] p1 of
         (Inl e, p') \<Rightarrow> (Inl e, s1, p')
       | (Inr ms, p') \<Rightarrow>
           (Inr (Some (StreamCall callId)), s1\<lparr>videoCall := Some (StreamCall callId)\<rparr>, p'))"
    using vc uid cid unfolding s1 by (simp add: initializeVideoCall_def)
  have same: "s1\<lparr>videoCall := Some (StreamCall callId)\<rparr> = s1"
    by (simp add: s1)
  have d: "distinct (map fst (sessions p)) \<Longrightarrow> distinct (map fst (sessions p1))"
    using getOrCreate_distinct [of p env1 callId "[uid, partnerId]"] goc by simp
  show ?thesis
    using found d by (simp add: second same c getOrCreate_existing [OF found])
qed

lemma first_call:
  "initializeVideoCall example_constraints False online (as_user student_u1) ''u2''
     (ready_stream student_u1) empty_platform
   = (Inr (Some (StreamCall ''u1:u2'')), in_call, one_session)"
  by (simp add: initializeVideoCall_def ready_stream_client as_user_id student_u1_def
      createVideoCallId_def example_constraints_def min_def max_def getOrCreate_def
      online_def empty_platform_def sent_def in_call_def one_session_def Let_def)

theorem initializeVideoCall_idempotent_witness:
  "initializeVideoCall example_constraints False online (as_user student_u1) ''u2''
     (ready_stream student_u1) empty_platform
   = (Inr (Some (StreamCall ''u1:u2'')), in_call, one_session)
   \<and> initializeVideoCall example_constraints False rejecting (as_user student_u1) ''u2''
       in_call one_session
     = (Inr (Some (StreamCall ''u1:u2'')), in_call,
        sent (GetOrCreate ''u1:u2'' [''u1'', ''u2'']) one_session)
   \<and> sessions (sent (GetOrCreate ''u1:u2'' [''u1'', ''u2'']) one_session) = sessions one_session
   \<and> map_of (sessions one_session) ''u1:u2'' = Some [''u1'', ''u2'']"
proof -
  have again: "initializeVideoCall example_constraints False rejecting (as_user student_u1) ''u2''
       in_call one_session
     = (Inr (Some (StreamCall ''u1:u2'')), in_call,
        sent (GetOrCreate ''u1:u2'' [''u1'', ''u2'']) one_session)"
    by (simp add: initializeVideoCall_def ready_stream_client as_user_id student_u1_def
      createVideoCallId_def example_constraints_def min_def max_def getOrCreate_def
      rejecting_def sent_def in_call_def one_session_def Let_def)
  show ?thesis
    using initializeVideoCall_idempotent [OF first_call, of rejecting] first_call again
    by (simp add: one_session_def)
qed

text \<open>
  C7, as the claim states it, fails on sign-out: with a call held, the effect that runs
  when authentication ends drops the handle and disconnects the two clients, and no
  \<^verbatim>\<open>leave\<close> request for the call is among the requests sent.
\<close>

theorem sign_out_drops_call_without_leave:
  "videoCall in_call = Some (StreamCall ''u1:u2'')
   \<and> videoCall (fst (authEffect False None signed_out in_call one_session)) = None
   \<and> requests (snd (authEffect False None signed_out in_call one_session))
       = [GetOrCreate ''u1:u2'' [''u1'', ''u2''], DisconnectVideoUser, DisconnectChatUser]
   \<and> Leave ''u1:u2'' \<notin> set (requests (snd (authEffect False None signed_out in_call one_session)))"
  by (simp add: authEffect_def signed_out_def cleanupStream_def in_call_def one_session_def
      ready_stream_def initializeStreamClient_def initial_stream_def as_user_def Let_def sent_def)

text \<open>
  C7, amended: the handle is released through \<^verbatim>\<open>leave()\<close> on explicit call end.
  With a call of the SDK held, \<^verbatim>\<open>endVideoCall\<close> sends exactly one request, the
  \<^verbatim>\<open>leave\<close> of that call; its outcome is the outcome of that \<^verbatim>\<open>leave\<close>, and it
  discards the handle if and only if \<^verbatim>\<open>leave\<close> returned normally (otherwise the error
  of \<^verbatim>\<open>leave\<close> is thrown on and the handle is kept). \<^verbatim>\<open>cleanupStream\<close>,
  the sign-out path, discards the handle and sends only the disconnects of the clients
  that exist.
\<close>

theorem handle_release_paths:
  assumes "videoCall s = Some (StreamCall callId)"
  shows "requests (snd (snd (endVideoCall env s p))) = requests p @ [Leave callId]
       \<and> fst (endVideoCall env s p) = fst (leave env (StreamCall callId) p)
       \<and> snd (snd (endVideoCall env s p)) = snd (leave env (StreamCall callId) p)
       \<and> fst (snd (endVideoCall env s p))
           = (if fst (leave env (StreamCall callId) p) = Inr ()
              then s\<lparr>videoCall := None\<rparr> else s)
       \<and> fst (snd (endVideoCall env s p))
           = (if fst (endVideoCall env s p) = Inr () then s\<lparr>videoCall := None\<rparr> else s)
       \<and> videoCall (fst (cleanupStream s p)) = None
       \<and> requests (snd (cleanupStream s p))
           = requests p @ (if videoClient s \<noteq> None then [DisconnectVideoUser] else [])
                        @ (if chatClient s \<noteq> None then [DisconnectChatUser] else [])"
  using assms
  by (simp add: endVideoCall_def cleanupStream_def Let_def split: sum.splits prod.splits)

theorem handle_release_paths_witness:
  "videoCall in_call = Some (StreamCall ''u1:u2'')
   \<and> endVideoCall online in_call one_session
       = (Inr (), in_call\<lparr>videoCall := None\<rparr>, sent (Leave ''u1:u2'') one_session)
   \<and> endVideoCall offline in_call one_session
       = (Inl NetworkUnavailable, in_call, sent (Leave ''u1:u2'') one_session)
   \<and> requests (snd (cleanupStream in_call one_session))
       = requests one_session @ [DisconnectVideoUser, DisconnectChatUser]"
proof -
  have h: "videoCall in_call = Some (StreamCall ''u1:u2'')"
    by (simp add: in_call_def)
  have c: "videoClient in_call \<noteq> None" "chatClient in_call \<noteq> None"
    by (simp_all add: in_call_def ready_stream_def initializeStreamClient_def
        initial_stream_def as_user_def Let_def)
  show ?thesis
    using h c handle_release_paths [OF h, of online one_session]
    by (simp add: endVideoCall_def sdk_answer_def online_def offline_def)
qed

section \<open>Role gate and partner selection: properties\<close>

lemma signedIn_with_outcome [simp]: "signedIn (with_outcome a r) = signedIn a"
  by (simp add: with_outcome_def)

lemma studentSelected_with_outcome [simp]: "studentSelected (with_outcome a r) = studentSelected a"
  by (simp add: with_outcome_def)

lemma coachStudent_with_outcome [simp]: "coachStudent (with_outcome a r) = coachStudent a"
  by (simp add: with_outcome_def)

lemma signedIn_autoJoin [simp]: "signedIn (autoJoin cfg env a) = signedIn a"
  by (simp add: autoJoin_def split: prod.splits)

lemma studentSelected_autoJoin [simp]: "studentSelected (autoJoin cfg env a) = studentSelected a"
  by (simp add: autoJoin_def split: prod.splits)

lemma coachStudent_autoJoin [simp]: "coachStudent (autoJoin cfg env a) = coachStudent a"
  by (simp add: autoJoin_def split: prod.splits)

lemma step_signedIn: "signedIn (step cfg a e) = signedIn a"
  by (cases e) (simp_all split: option.splits prod.splits selection_screen.splits)

lemma run_signedIn: "signedIn (run cfg a es) = signedIn a"
  unfolding run_def by (induction es arbitrary: a) (simp_all add: step_signedIn)

lemma selectedStudent_called [simp]:
  "selectedStudent (snd (loadStudents_called sb pr c)) = selectedStudent c"
  by (simp add: loadStudents_called_def)

lemma selectedStudent_settled [simp]:
  "selectedStudent (loadStudents_settled db pr c) = selectedStudent c"
  by (simp add: loadStudents_settled_def)

lemma availableStudents_called [simp]:
  "availableStudents (snd (loadStudents_called sb pr c)) = availableStudents c"
  by (simp add: loadStudents_called_def)

lemma step_picked: "picked a \<Longrightarrow> picked (step cfg a e)"
  by (cases e)
    (auto simp: picked_def selectStudent_def split: option.splits prod.splits selection_screen.splits)

lemma run_picked: "picked a \<Longrightarrow> picked (run cfg a es)"
  unfolding run_def by (induction es arbitrary: a) (simp_all add: step_picked)

lemma picked_signed_in: "picked (signed_in who s p)"
  by (simp add: picked_def signed_in_def initial_coach_student_def)

text \<open>
  C5: the gate depends on the role alone, next to the selection flag. The selection
  screen is rendered exactly for a coach who has not selected a student; a student, any
  other role and a missing profile get the main tabs. For a signed-in user this holds
  from sign-in on and after any sequence of events: a coach starts on the selection
  screen and is on the main tabs exactly once a student has been selected, everybody else
  is on the main tabs throughout.
\<close>

theorem role_gate:
  assumes "isAuthenticated who"
  shows "renderMainContent profile sel
           = (if map_option role profile = Some ''coach'' \<and> \<not> sel then StudentSelection else MainTabs)
       \<and> current_screen (signed_in who s p)
           = (if map_option role (userProfile who) = Some ''coach'' then StudentSelection else MainTabs)
       \<and> current_screen (run cfg (signed_in who s p) es)
           = (if map_option role (userProfile who) = Some ''coach''
                 \<and> selectedStudent (coachStudent (run cfg (signed_in who s p) es)) = None
              then StudentSelection else MainTabs)"
proof -
  have who: "signedIn (run cfg (signed_in who s p) es) = who"
    by (simp add: run_signedIn signed_in_def)
  have sel: "studentSelected (run cfg (signed_in who s p) es)
      = (selectedStudent (coachStudent (run cfg (signed_in who s p) es)) \<noteq> None)"
    using run_picked [OF picked_signed_in] by (simp add: picked_def)
  have r: "renderMainContent profile sel
           = (if map_option role profile = Some ''coach'' \<and> \<not> sel then StudentSelection else MainTabs)"
    for profile sel
    by (auto simp: renderMainContent_def)
  show ?thesis
    using assms
    by (simp add: current_screen_def AppNavigator_def who sel r)
      (simp add: signed_in_def)
qed

lemma role_gate_runs:
  "current_screen (signed_in (as_user coach_u2) (ready_stream coach_u2) empty_platform) = StudentSelection"
  "current_screen (run (example_config assigned_backend)
      (signed_in (as_user coach_u2) (ready_stream coach_u2) empty_platform)
      [LoadStudentsCalled, LoadStudentsSettled, PressStudent 0]) = MainTabs"
  "current_screen (signed_in (as_user student_u1) (ready_stream student_u1) empty_platform) = MainTabs"
  "current_screen (signed_in (as_user admin_u3) (ready_stream admin_u3) empty_platform) = MainTabs"
  by code_simp+

theorem role_gate_witness:
  "isAuthenticated (as_user coach_u2)
   \<and> current_screen (signed_in (as_user coach_u2) (ready_stream coach_u2) empty_platform)
       = StudentSelection
   \<and> current_screen (run (example_config assigned_backend)
         (signed_in (as_user coach_u2) (ready_stream coach_u2) empty_platform)
         [LoadStudentsCalled, LoadStudentsSettled, PressStudent 0]) = MainTabs
   \<and> selectedStudent (coachStudent (run (example_config assigned_backend)
         (signed_in (as_user coach_u2) (ready_stream coach_u2) empty_platform)
         [LoadStudentsCalled, LoadStudentsSettled, PressStudent 0])) \<noteq> None
   \<and> current_screen (signed_in (as_user student_u1) (ready_stream student_u1) empty_platform)
       = MainTabs
   \<and> current_screen (signed_in (as_user admin_u3) (ready_stream admin_u3) empty_platform)
       = MainTabs"
proof -
  have h: "isAuthenticated (as_user coach_u2)" by (simp add: as_user_def)
  have c: "map_option role (userProfile (as_user coach_u2)) = Some ''coach''"
    by (simp add: as_user_def coach_u2_def)
  show ?thesis
    using h c role_gate_runs
      role_gate [OF h, of None False "ready_stream coach_u2" empty_platform
        "example_config assigned_backend" "[LoadStudentsCalled, LoadStudentsSettled, PressStudent 0]"]
    by (simp split: if_splits)
qed

lemma step_idle:
  assumes "isAuthenticated who" and "userProfile who = Some pr" and "role pr = ''coach''"
    and "cfg_supabase cfg = Some db"
    and "filter (\<lambda>r. coach_id r = profile_id pr \<and> is_active r) (coach_student_assignments db) = []"
    and "idle who s p a"
  shows "idle who s p (step cfg a e)"
proof -
  have scr: "current_screen a = StudentSelection"
    using assms by (simp add: idle_def current_screen_def AppNavigator_def renderMainContent_def)
  have view: "CoachStudentSelectionScreen (coachStudent a) = LoadingStudents
      \<or> (\<exists>v. CoachStudentSelectionScreen (coachStudent a) = SelectStudent v \<and> student_list v = None)"
    using assms by (simp add: idle_def CoachStudentSelectionScreen_def)
  show ?thesis
  proof (cases e)
    case LoadStudentsCalled
    then show ?thesis using assms scr by (simp add: idle_def)
  next
    case LoadStudentsSettled
    then show ?thesis using assms scr
      by (simp add: idle_def loadStudents_settled_def students_of_def map_filter_simps)
  next
    case (PressStudent i)
    then show ?thesis using assms scr view by (auto simp: idle_def)
  qed (use assms scr in \<open>simp_all add: idle_def\<close>)
qed

lemma run_idle:
  assumes "isAuthenticated who" and "userProfile who = Some pr" and "role pr = ''coach''"
    and "cfg_supabase cfg = Some db"
    and "filter (\<lambda>r. coach_id r = profile_id pr \<and> is_active r) (coach_student_assignments db) = []"
  shows "idle who s p a \<Longrightarrow> idle who s p (run cfg a es)"
  unfolding run_def
proof (induction es arbitrary: a)
  case Nil
  then show ?case by simp
next
  case (Cons e es)
  from step_idle [OF assms Cons.prems] have "idle who s p (step cfg a e)" .
  then show ?case using Cons.IH by simp
qed

text \<open>
  C6: a signed-in coach for whom the assignment table holds no active row stays on the
  selection screen whatever events occur; the list of students is empty and never
  rendered, and the provider state of the stream and the platform stay what they were at
  sign-in: not a single request is sent, so no \<^verbatim>\<open>getOrCreate\<close> and no channel creation.
  Once the query has been answered the screen shows the notice that no students are
  assigned.
\<close>

theorem coach_without_assignments:
  assumes "isAuthenticated who" and "userProfile who = Some pr" and "role pr = ''coach''"
    and "cfg_supabase cfg = Some db"
    and "filter (\<lambda>r. coach_id r = profile_id pr \<and> is_active r) (coach_student_assignments db) = []"
  shows "current_screen (run cfg (signed_in who s p) es) = StudentSelection
       \<and> availableStudents (coachStudent (run cfg (signed_in who s p) es)) = []
       \<and> (case CoachStudentSelectionScreen (coachStudent (run cfg (signed_in who s p) es)) of
             LoadingStudents \<Rightarrow> True
           | SelectStudent v \<Rightarrow> student_list v = None)
       \<and> remote (run cfg (signed_in who s p) es) = p
       \<and> stream (run cfg (signed_in who s p) es) = s
       \<and> (answers db \<longrightarrow>
            CoachStudentSelectionScreen
              (coachStudent (run cfg (signed_in who s p) [LoadStudentsCalled, LoadStudentsSettled]))
            = SelectStudent \<lparr>retry_shown = False, empty_notice = True, student_list = None\<rparr>)"
proof -
  have "idle who s p (signed_in who s p)"
    by (simp add: idle_def signed_in_def initial_coach_student_def)
  from run_idle [OF assms this, of es]
  have i: "idle who s p (run cfg (signed_in who s p) es)" .
  have scr: "current_screen (run cfg (signed_in who s p) es) = StudentSelection"
    using i assms by (simp add: idle_def current_screen_def AppNavigator_def renderMainContent_def)
  have view: "(case CoachStudentSelectionScreen (coachStudent (run cfg (signed_in who s p) es)) of
             LoadingStudents \<Rightarrow> True
           | SelectStudent v \<Rightarrow> student_list v = None)"
    using i by (simp add: idle_def CoachStudentSelectionScreen_def)
  have settled: "answers db \<Longrightarrow>
            CoachStudentSelectionScreen
              (coachStudent (run cfg (signed_in who s p) [LoadStudentsCalled, LoadStudentsSettled]))
            = SelectStudent \<lparr>retry_shown = False, empty_notice = True, student_list = None\<rparr>"
    using assms
    by (simp add: run_def signed_in_def current_screen_def AppNavigator_def renderMainContent_def
        loadStudents_called_def loadStudents_settled_def initial_coach_student_def
        students_of_def map_filter_simps CoachStudentSelectionScreen_def)
  show ?thesis
    using i scr view settled by (simp add: idle_def)
qed

text \<open>
  The same events with an assignment in the table: the coach selects the student, the
  call button sends the \<^verbatim>\<open>getOrCreate\<close> request, and the call screen joins the call.
\<close>

lemma coach_with_assignment_calls:
  "requests (remote (run (example_config assigned_backend)
      (signed_in (as_user coach_u2) (ready_stream coach_u2) empty_platform)
      [LoadStudentsCalled, LoadStudentsSettled, PressStudent 0, PressStartVideoCall online]))
   = [GetOrCreate ''u1:u2'' [''u2'', ''u1''], Join ''u1:u2'']"
  by code_simp

lemma unassigned_events:
  "remote (run (example_config unassigned_backend)
      (signed_in (as_user coach_u2) (ready_stream coach_u2) empty_platform)
      [LoadStudentsCalled, LoadStudentsSettled, PressStudent 0, PressStartVideoCall online,
       ChatScreenEffect online]) = empty_platform"
  by code_simp

theorem coach_without_assignments_witness:
  "isAuthenticated (as_user coach_u2)
   \<and> userProfile (as_user coach_u2) = Some coach_u2
   \<and> role coach_u2 = ''coach''
   \<and> cfg_supabase (example_config unassigned_backend) = Some unassigned_backend
   \<and> filter (\<lambda>r. coach_id r = profile_id coach_u2 \<and> is_active r)
        (coach_student_assignments unassigned_backend) = []
   \<and> current_screen (run (example_config unassigned_backend)
        (signed_in (as_user coach_u2) (ready_stream coach_u2) empty_platform)
        [LoadStudentsCalled, LoadStudentsSettled, PressStudent 0, PressStartVideoCall online,
         ChatScreenEffect online]) = StudentSelection
   \<and> remote (run (example_config unassigned_backend)
        (signed_in (as_user coach_u2) (ready_stream coach_u2) empty_platform)
        [LoadStudentsCalled, LoadStudentsSettled, PressStudent 0, PressStartVideoCall online,
         ChatScreenEffect online]) = empty_platform
   \<and> CoachStudentSelectionScreen (coachStudent (run (example_config unassigned_backend)
        (signed_in (as_user coach_u2) (ready_stream coach_u2) empty_platform)
        [LoadStudentsCalled, LoadStudentsSettled]))
       = SelectStudent \<lparr>retry_shown = False, empty_notice = True, student_list = None\<rparr>"
proof -
  have h1: "isAuthenticated (as_user coach_u2)" by (simp add: as_user_def)
  have h2: "userProfile (as_user coach_u2) = Some coach_u2" by (simp add: as_user_def)
  have h3: "role coach_u2 = ''coach''" by (simp add: coach_u2_def)
  have h4: "cfg_supabase (example_config unassigned_backend) = Some unassigned_backend"
    by (simp add: example_config_def)
  have h5: "filter (\<lambda>r. coach_id r = profile_id coach_u2 \<and> is_active r)
        (coach_student_assignments unassigned_backend) = []"
    by (simp add: unassigned_backend_def coach_u2_def)
  have h6: "answers unassigned_backend" by (simp add: unassigned_backend_def)
  show ?thesis
    using h1 h2 h3 h4 h5 h6
      coach_without_assignments [OF h1 h2 h3 h4 h5, of "ready_stream coach_u2" empty_platform
        "[LoadStudentsCalled, LoadStudentsSettled, PressStudent 0, PressStartVideoCall online,
          ChatScreenEffect online]"]
    by simp
qed

section \<open>Join window and reminders: properties\<close>

lemma whole_minutes_window:
  "(- 60 \<le> (d::int) div 60000 \<and> d div 60000 \<le> 10) = (- 3600000 \<le> d \<and> d < 660000)"
proof -
  have split: "(- 60 \<le> q \<and> q \<le> 10) = (- 3600000 \<le> d \<and> d < 660000)"
    if "d = 60000 * q + r" "0 \<le> r" "r < 60000" for q r :: int
    using that by auto
  have "d = 60000 * (d div 60000) + d mod 60000" by simp
  moreover have "0 \<le> d mod 60000" "d mod 60000 < 60000" by simp_all
  ultimately show ?thesis by (rule split)
qed

text \<open>
  C9, as the claim states it, fails between ten and eleven minutes before the start: at
  86430000 ms (00:00:30 on 1970-01-02) the session that starts at 87060000 ms (00:11:00)
  is 630000 ms, ten and a half minutes, away, which is more than ten minutes, and
  \<^verbatim>\<open>handleJoinSession\<close> creates and joins the call; \<^verbatim>\<open>getSessionStatus\<close> marks the
  session joinable.
\<close>

theorem joins_ten_and_a_half_minutes_early:
  "handleJoinSession
     (run_initializeVideoCall (example_config assigned_backend) online (as_user student_u1))
     (run_startVideoCall (example_config assigned_backend) online)
     False fixed_calendar (Some student_u1) example_session 86430000
     (ready_stream student_u1, empty_platform)
   = ([JoinedAlert], in_call, sent (Join ''u1:u2'') one_session)
   \<and> sessionTimeMs fixed_calendar (scheduled_date example_session) ''00:11:00'' = Some 87060000
   \<and> (10 * 60 * 1000 :: int) < 87060000 - 86430000
   \<and> map_sum id canJoin (getSessionStatus fixed_calendar example_session 86430000) = Inr True"
proof -
  have r: "role student_u1 = ''student''" by (simp add: student_u1_def)
  have j: "startVideoCall False online (Some (StreamCall ''u1:u2'')) in_call one_session
      = (Inr (), in_call, sent (Join ''u1:u2'') one_session)"
    by (simp add: startVideoCall_def sdk_answer_def online_def)
  show ?thesis
    by (simp add: handleJoinSession_def example_session_def minutesUntilSession_def
      sessionTimeMs_def fixed_calendar_def js_gt_def js_lt_def js_ge_def Let_def
      run_initializeVideoCall_def run_startVideoCall_def example_config_def
      first_call r j getSessionStatus_def)
qed

text \<open>
  C9, amended: for a session whose start time is present and whose date and time denote
  an instant \<open>t\<close>, the window is measured in whole minutes, rounded down:
  \<^verbatim>\<open>getSessionStatus\<close> marks the session joinable exactly when the whole minutes until
  the start lie between -60 and 10 inclusive, that is from less than eleven minutes
  before the start until sixty minutes after it. Outside that window
  \<^verbatim>\<open>handleJoinSession\<close> returns after one alert with the state untouched, whatever the
  functions it was given for \<^verbatim>\<open>initializeVideoCall\<close> and \<^verbatim>\<open>startVideoCall\<close> would do;
  inside it and out of demo mode its result is the one of \<^verbatim>\<open>initializeVideoCall\<close> on the
  partner, followed by \<^verbatim>\<open>startVideoCall\<close>. In demo mode it only shows the demo alert.
\<close>

theorem join_window:
  assumes "scheduled_start_time session = Some sessionTime"
    and "sessionTimeMs dateMs (scheduled_date session) sessionTime = Some t"
  shows "map_sum id canJoin (getSessionStatus dateMs session now)
           = Inr (- 60 \<le> (t - now) div 60000 \<and> (t - now) div 60000 \<le> 10)
       \<and> ((- 60 \<le> (t - now) div 60000 \<and> (t - now) div 60000 \<le> 10)
            = (- 3600000 \<le> t - now \<and> t - now < 660000))
       \<and> (10 < (t - now) div 60000 \<longrightarrow>
            handleJoinSession initVideoCall startCall demo dateMs profile session now st
              = (if demo then ([DemoModeAlert], st)
                 else ([NotStartedAlert (Some ((t - now) div 60000))], st)))
       \<and> ((t - now) div 60000 < - 60 \<longrightarrow>
            handleJoinSession initVideoCall startCall demo dateMs profile session now st
              = (if demo then ([DemoModeAlert], st) else ([SessionOverAlert], st)))
       \<and> (- 60 \<le> (t - now) div 60000 \<and> (t - now) div 60000 \<le> 10 \<longrightarrow>
            handleJoinSession initVideoCall startCall demo dateMs profile session now st
              = (if demo then ([DemoModeAlert], st)
                 else (case initVideoCall (join_partner profile session) st of
                         (Inl e, st1) \<Rightarrow> ([JoinErrorAlert], st1)
                       | (Inr None, st1) \<Rightarrow> ([], st1)
                       | (Inr (Some c), st1) \<Rightarrow>
                           (case startCall (Some c) st1 of
                              (Inl e, st2) \<Rightarrow> ([JoinErrorAlert], st2)
                            | (Inr u, st2) \<Rightarrow> ([JoinedAlert], st2)))))"
proof -
  have m: "minutesUntilSession dateMs session sessionTime now = Some ((t - now) div 60000)"
    using assms by (simp add: minutesUntilSession_def)
  have status: "map_sum id canJoin (getSessionStatus dateMs session now)
           = Inr (- 60 \<le> (t - now) div 60000 \<and> (t - now) div 60000 \<le> 10)"
    using assms(1) by (simp add: getSessionStatus_def m js_gt_def js_ge_def Let_def)
  have early: "10 < (t - now) div 60000 \<Longrightarrow>
            handleJoinSession initVideoCall startCall demo dateMs profile session now st
              = (if demo then ([DemoModeAlert], st)
                 else ([NotStartedAlert (Some ((t - now) div 60000))], st))"
    using assms(1) by (simp add: handleJoinSession_def m js_gt_def Let_def)
  have late: "(t - now) div 60000 < - 60 \<Longrightarrow>
            handleJoinSession initVideoCall startCall demo dateMs profile session now st
              = (if demo then ([DemoModeAlert], st) else ([SessionOverAlert], st))"
    using assms(1) by (simp add: handleJoinSession_def m js_gt_def js_lt_def Let_def)
  have inside: "- 60 \<le> (t - now) div 60000 \<and> (t - now) div 60000 \<le> 10 \<Longrightarrow>
            handleJoinSession initVideoCall startCall demo dateMs profile session now st
              = (if demo then ([DemoModeAlert], st)
                 else (case initVideoCall (join_partner profile session) st of
                         (Inl e, st1) \<Rightarrow> ([JoinErrorAlert], st1)
                       | (Inr None, st1) \<Rightarrow> ([], st1)
                       | (Inr (Some c), st1) \<Rightarrow>
                           (case startCall (Some c) st1 of
                              (Inl e, st2) \<Rightarrow> ([JoinErrorAlert], st2)
                            | (Inr u, st2) \<Rightarrow> ([JoinedAlert], st2))))"
    using assms(1)
    by (simp add: handleJoinSession_def m js_gt_def js_lt_def Let_def join_partner_def)
  show ?thesis
    using status early late inside whole_minutes_window [of "t - now"] by blast
qed

theorem join_window_witness:
  "scheduled_start_time example_session = Some ''00:11:00''
   \<and> sessionTimeMs fixed_calendar (scheduled_date example_session) ''00:11:00'' = Some 87060000
   \<and> map_sum id canJoin (getSessionStatus fixed_calendar example_session 86400000) = Inr False
   \<and> map_sum id canJoin (getSessionStatus fixed_calendar example_session 86460000) = Inr True
   \<and> map_sum id canJoin (getSessionStatus fixed_calendar example_session 90660000) = Inr True
   \<and> map_sum id canJoin (getSessionStatus fixed_calendar example_session 90660001) = Inr False
   \<and> handleJoinSession
       (run_initializeVideoCall (example_config assigned_backend) online (as_user student_u1))
       (run_startVideoCall (example_config assigned_backend) online)
       False fixed_calendar (Some student_u1) example_session 86400000
       (ready_stream student_u1, empty_platform)
     = ([NotStartedAlert (Some 11)], ready_stream student_u1, empty_platform)"
proof -
  have h1: "scheduled_start_time example_session = Some ''00:11:00''"
    by (simp add: example_session_def)
  have h2: "sessionTimeMs fixed_calendar (scheduled_date example_session) ''00:11:00'' = Some 87060000"
    by (simp add: example_session_def sessionTimeMs_def fixed_calendar_def)
  have status:
    "map_sum id canJoin (getSessionStatus fixed_calendar example_session 86460000) = Inr True"
    "map_sum id canJoin (getSessionStatus fixed_calendar example_session 90660000) = Inr True"
    "map_sum id canJoin (getSessionStatus fixed_calendar example_session 90660001) = Inr False"
    by (simp_all add: getSessionStatus_def minutesUntilSession_def h1 h2 js_gt_def js_ge_def)
  show ?thesis
    using h1 h2 status
      join_window [OF h1 h2, of 86400000
        "run_initializeVideoCall (example_config assigned_backend) online (as_user student_u1)"
        "run_startVideoCall (example_config assigned_backend) online" False
        "Some student_u1" "(ready_stream student_u1, empty_platform)"]
    by simp
qed

lemma scheduled_reminder:
  assumes "truthy (scheduled_date session) = Some date"
    and "truthy (scheduled_start_time session) = Some startTime"
    and "(r, trigger) \<in> set (scheduleSessionReminders dateMs accepted session now)"
  shows "\<exists>ms. dateMs date startTime = Some ms \<and> now < ms
            \<and> trigger = Some (ms - reminder_offset r) \<and> now < ms - reminder_offset r
            \<and> accepted r"
  using assms
  by (auto simp: scheduleSessionReminders_def scheduleNotificationAsync_def js_le_def js_gt_def
      Let_def split: option.splits if_splits sum.splits)

lemma unscheduled_without_date_and_time:
  "truthy (scheduled_date session) = None \<or> truthy (scheduled_start_time session) = None
   \<Longrightarrow> scheduleSessionReminders dateMs accepted session now = []"
  by (auto simp: scheduleSessionReminders_def split: option.splits)

text \<open>
  C10: every notification that \<^verbatim>\<open>scheduleSessionReminders\<close> schedules has a trigger
  strictly later than the current time; a session whose date and start time are present
  and whose instant is not strictly in the future gets none; and each notification
  scheduled is one of the three reminders of a session in the future, due its own offset
  before the session.
\<close>

theorem reminders_only_in_future:
  "list_all (\<lambda>(r, trigger). js_gt trigger now)
     (scheduleSessionReminders dateMs accepted session now)
   \<and> (\<forall>date startTime.
         truthy (scheduled_date session) = Some date
         \<and> truthy (scheduled_start_time session) = Some startTime
         \<and> js_le (dateMs date startTime) now
         \<longrightarrow> scheduleSessionReminders dateMs accepted session now = [])
   \<and> (\<forall>r trigger.
         (r, trigger) \<in> set (scheduleSessionReminders dateMs accepted session now)
         \<longrightarrow> (\<exists>date startTime ms.
                truthy (scheduled_date session) = Some date
                \<and> truthy (scheduled_start_time session) = Some startTime
                \<and> dateMs date startTime = Some ms \<and> now < ms
                \<and> trigger = Some (ms - reminder_offset r) \<and> now < ms - reminder_offset r))"
proof -
  have c: "\<exists>date startTime ms.
                truthy (scheduled_date session) = Some date
                \<and> truthy (scheduled_start_time session) = Some startTime
                \<and> dateMs date startTime = Some ms \<and> now < ms
                \<and> trigger = Some (ms - reminder_offset r) \<and> now < ms - reminder_offset r"
    if m: "(r, trigger) \<in> set (scheduleSessionReminders dateMs accepted session now)" for r trigger
  proof -
    from m have "scheduleSessionReminders dateMs accepted session now \<noteq> []" by auto
    with unscheduled_without_date_and_time [of session dateMs accepted now]
    obtain date startTime where dt: "truthy (scheduled_date session) = Some date"
        "truthy (scheduled_start_time session) = Some startTime"
      by (cases "truthy (scheduled_date session)"; cases "truthy (scheduled_start_time session)")
        auto
    from scheduled_reminder [OF dt m] dt show ?thesis by blast
  qed
  have a: "list_all (\<lambda>(r, trigger). js_gt trigger now)
     (scheduleSessionReminders dateMs accepted session now)"
    unfolding list_all_iff
  proof (clarify)
    fix r trigger
    assume "(r, trigger) \<in> set (scheduleSessionReminders dateMs accepted session now)"
    from c [OF this] show "js_gt trigger now"
      by (auto simp: js_gt_def)
  qed
  have b: "scheduleSessionReminders dateMs accepted session now = []"
    if "truthy (scheduled_date session) = Some date"
      "truthy (scheduled_start_time session) = Some startTime"
      "js_le (dateMs date startTime) now" for date startTime
    using that by (simp add: scheduleSessionReminders_def Let_def)
  show ?thesis using a b c by blast
qed

lemma example_reminders:
  "scheduleSessionReminders fixed_calendar always example_session 0
     = [(Reminder24h, Some 660000), (Reminder1h, Some 83460000), (Reminder15m, Some 86160000)]"
  "scheduleSessionReminders fixed_calendar always example_session 83000000
     = [(Reminder1h, Some 83460000), (Reminder15m, Some 86160000)]"
  "scheduleSessionReminders fixed_calendar always example_session 84000000
     = [(Reminder15m, Some 86160000)]"
  "scheduleSessionReminders fixed_calendar always example_session 86160000 = []"
  "scheduleSessionReminders fixed_calendar always example_session 87060000 = []"
  by (simp_all add: scheduleSessionReminders_def scheduleNotificationAsync_def js_le_def js_gt_def
      Let_def truthy_def example_session_def fixed_calendar_def always_def)

theorem reminders_only_in_future_witness:
  "scheduleSessionReminders fixed_calendar always example_session 83000000
     = [(Reminder1h, Some 83460000), (Reminder15m, Some 86160000)]
   \<and> list_all (\<lambda>(r, trigger). js_gt trigger 83000000)
       (scheduleSessionReminders fixed_calendar always example_session 83000000)
   \<and> truthy (scheduled_date example_session) = Some ''1970-01-02''
   \<and> truthy (scheduled_start_time example_session) = Some ''00:11:00''
   \<and> js_le (fixed_calendar ''1970-01-02'' ''00:11:00'') 87060000
   \<and> scheduleSessionReminders fixed_calendar always example_session 87060000 = []"
  using reminders_only_in_future [of 83000000 fixed_calendar always example_session]
    reminders_only_in_future [of 87060000 fixed_calendar always example_session]
    example_reminders
  by (simp add: truthy_def example_session_def fixed_calendar_def js_le_def)

end
